theory Spec2Isabelle
  imports Complex_Main "HOL-Library.Word"
begin

section \<open>Python values shared by the two generators\<close>

text \<open>
  The repository has two image generators, \<^verbatim>\<open>ModelScopeGenerator\<close>
  (\<^verbatim>\<open>backend/generators/modelscope.py\<close>) and \<^verbatim>\<open>ReplicateGenerator\<close>
  (\<^verbatim>\<open>backend/generators/replicate_gen.py\<close>). Both talk to the network, sleep, read the
  clock and log. In the embedding every such effect is explicit: what the outside world
  answers is an input (a \<open>world\<close>), and what the code does to the outside world is an
  output (a list of \<open>event\<close>s, in program order).

  Conventions.
  \<^item> A prompt is the only string whose length the code takes, so it is a list of code
    points (\<open>pystr\<close>, each below \<open>0x110000\<close> in Python), and \<open>length\<close> is Python's
    \<^verbatim>\<open>len\<close>. Every other text (URLs, keys, model names, messages) is a \<open>string\<close> of
    UTF-8 bytes; the two non-ASCII message prefixes of \<^verbatim>\<open>replicate_gen.py\<close> are given
    that way.
  \<^item> \<^verbatim>\<open>bytes\<close> is a list of 8-bit words.
  \<^item> A Python float (a reading of \<^verbatim>\<open>time.time()\<close>, \<^verbatim>\<open>timeout\<close>, \<^verbatim>\<open>polling_interval\<close>) is
    the real number it denotes, and comparisons are those of the reals. The one float
    operation of the code that rounds, the subtraction \<^verbatim>\<open>time.time() - start_time\<close>, is
    not computed here: its result is given by the platform (\<open>float_sub\<close>), and so is
    what \<^verbatim>\<open>time.sleep\<close> does (\<open>time_sleep\<close>).
  \<^item> A JSON body is modelled by the fields the code reads, each with the JSON type the
    service gives it when it is present.
\<close>

type_synonym pystr = "nat list"
type_synonym bytes = "8 word list"

text \<open>
  The exceptions the code raises or lets through. \<open>RequestException\<close> stands for
  \<^verbatim>\<open>requests.exceptions.RequestException\<close> and its subclasses other than \<open>HTTPError\<close>
  (connection errors, timeouts of the transport, ...); its flag says whether
  \<^verbatim>\<open>e.response\<close> is set. \<open>HTTPError\<close> is what \<^verbatim>\<open>raise_for_status\<close> raises and carries the
  status code. \<open>TimeoutError\<close> is Python's built-in, carrying the configured timeout that
  its message formats. \<open>UnicodeEncodeError\<close> is what \<^verbatim>\<open>str.encode('utf-8')\<close> raises (its
  text is not kept). \<open>Exception\<close> is any other exception, with its text.
\<close>

datatype exn =
    ValueError string
  | KeyError string
  | IndexError string
  | TimeoutError real
  | RuntimeError string
  | ImportError string
  | RequestException string bool
  | HTTPError nat
  | UnicodeEncodeError
  | Exception string

fun is_RequestException :: "exn \<Rightarrow> bool" where
  "is_RequestException (RequestException m b) = True"
| "is_RequestException (HTTPError c) = True"
| "is_RequestException e = False"

fun has_response :: "exn \<Rightarrow> bool" where
  "has_response (RequestException m b) = b"
| "has_response (HTTPError c) = True"
| "has_response e = False"

record json_obj =
  task_id :: "string option"
  task_status :: "string option"
  output_images :: "string list option"
  message :: "string option"

text \<open>
  A \<^verbatim>\<open>requests.Response\<close>: \<open>json\<close> is what \<^verbatim>\<open>.json()\<close> does (\<open>Inl e\<close>: it raises \<open>e\<close>).
\<close>

record response =
  status_code :: nat
  json :: "exn + json_obj"
  content :: bytes

text \<open>
  \<^verbatim>\<open>Response.raise_for_status\<close> raises for the 4xx and 5xx codes and for no other.
\<close>

definition raise_for_status :: "response \<Rightarrow> exn option" where
  "raise_for_status r =
     (if 400 \<le> status_code r \<and> status_code r < 600 then Some (HTTPError (status_code r))
      else None)"

text \<open>Python's truth value of \<^verbatim>\<open>self.api_key\<close>: \<^verbatim>\<open>None\<close> and the empty string are false.\<close>

fun truthy :: "string option \<Rightarrow> bool" where
  "truthy None = False"
| "truthy (Some s) = (s \<noteq> [])"

text \<open>
  \<^verbatim>\<open>s.encode('utf-8')\<close> succeeds exactly when \<open>s\<close> holds no surrogate code point
  (\<open>0xD800\<close> to \<open>0xDFFF\<close>); otherwise it raises \<open>UnicodeEncodeError\<close>.
\<close>

definition encodable :: "pystr \<Rightarrow> bool" where
  "encodable s = list_all (\<lambda>c. c < 0xD800 \<or> 0xDFFF < c) s"

text \<open>
  The platform: \<open>float_sub a b\<close> is the float that Python's \<^verbatim>\<open>a - b\<close> gives for two floats,
  and \<open>time_sleep d\<close> is what \<^verbatim>\<open>time.sleep(d)\<close> does: \<open>None\<close> when it returns, \<open>Some e\<close> when
  it raises \<open>e\<close> (as it does for a negative \<open>d\<close>).
\<close>

record platform =
  float_sub :: "real \<Rightarrow> real \<Rightarrow> real"
  time_sleep :: "real \<Rightarrow> exn option"

text \<open>Python's \<^verbatim>\<open>str\<close> of a natural number (a status code).\<close>

fun str_nat :: "nat \<Rightarrow> string" where
  "str_nat n =
     (if n < 10 then [char_of (48 + n)]
      else str_nat (n div 10) @ [char_of (48 + n mod 10)])"

declare str_nat.simps [simp del]

record generator =
  api_key :: "string option"
  model :: string

record payload =
  payload_model :: string
  payload_prompt :: pystr

record input_params =
  prompt :: pystr
  width :: nat
  height :: nat
  num_inference_steps :: nat
  guidance_scale :: real
  output_format :: string
  seed :: "int option"

datatype level = INFO | WARNING | ERROR

text \<open>
  What the code does to the outside world. \<open>Log\<close> keeps the level of a logger call, not
  its text. \<open>HttpPost url headers payload timeout\<close> and \<open>HttpGet url headers timeout\<close> are
  the calls of \<^verbatim>\<open>requests.post\<close> and \<^verbatim>\<open>requests.get\<close>; \<open>Sleep d\<close> is \<^verbatim>\<open>time.sleep(d)\<close>;
  \<open>ClientRun model input\<close> is \<^verbatim>\<open>client.run(model, input=...)\<close> of the replicate package.
\<close>

datatype event =
    Log level
  | HttpPost string "(string \<times> string) list" payload nat
  | HttpGet string "(string \<times> string) list" nat
  | Sleep real
  | ClientRun string input_params

fun is_Sleep :: "event \<Rightarrow> bool" where
  "is_Sleep (Sleep d) = True"
| "is_Sleep e = False"

fun is_HttpGet :: "event \<Rightarrow> bool" where
  "is_HttpGet (HttpGet u h t) = True"
| "is_HttpGet e = False"

section \<open>ReplicateGenerator\<close>

subsection \<open>\<^verbatim>\<open>_get_dimensions\<close>\<close>

definition ratios :: "(string \<times> nat \<times> nat) list" where
  "ratios =
     [(''1:1'', (1024, 1024)),
      (''3:4'', (896, 1152)),
      (''4:3'', (1152, 896)),
      (''9:16'', (768, 1344)),
      (''16:9'', (1344, 768))]"

text \<open>\<^verbatim>\<open>ratios.get(aspect_ratio, (1024, 1024))\<close>\<close>

definition get_dimensions :: "string \<Rightarrow> nat \<times> nat" where
  "get_dimensions aspect_ratio =
     (case map_of ratios aspect_ratio of None \<Rightarrow> (1024, 1024) | Some d \<Rightarrow> d)"

subsection \<open>The generator object, its arguments and its world\<close>

record replicate = generator +
  default_steps :: nat
  default_guidance :: real

text \<open>The keyword arguments \<^verbatim>\<open>generate_image\<close> reads: \<^verbatim>\<open>steps\<close>, \<^verbatim>\<open>guidance\<close>, \<^verbatim>\<open>seed\<close>.\<close>

record kwargs =
  kwargs_steps :: "nat option"
  kwargs_guidance :: "real option"
  kwargs_seed :: "int option"

text \<open>
  What \<^verbatim>\<open>client.run\<close> returns: a list (\<^verbatim>\<open>isinstance(output, list)\<close>) or a single object;
  each object is given by its \<^verbatim>\<open>str\<close>, the URL.
\<close>

datatype run_output = Single string | Listed "string list"

text \<open>
  Every handler of this class is \<^verbatim>\<open>except Exception as e\<close> and reads only \<^verbatim>\<open>str(e)\<close>. So
  inside the class a raised exception (an instance of \<^verbatim>\<open>Exception\<close>) is represented by
  that text: \<open>Inl m\<close> is an exception \<open>e\<close> with \<^verbatim>\<open>str(e) = m\<close>.

  The world: whether the module-level \<^verbatim>\<open>import replicate\<close> succeeded, what \<^verbatim>\<open>client.run\<close>
  does and what \<^verbatim>\<open>requests.get\<close> does. Each is called at most once.
\<close>

record replicate_world =
  replicate_installed :: bool
  run_reply :: "string + run_output"
  download_reply :: "string + response"

definition generation_failed_prefix :: string where
  "generation_failed_prefix =
     [CHR 0xE5, CHR 0x9B, CHR 0xBE, CHR 0xE7, CHR 0x89, CHR 0x87, CHR 0xE7, CHR 0x94,
      CHR 0x9F, CHR 0xE6, CHR 0x88, CHR 0x90, CHR 0xE5, CHR 0xA4, CHR 0xB1, CHR 0xE8,
      CHR 0xB4, CHR 0xA5, CHR 0x3A, CHR 0x20]"

definition download_failed_prefix :: string where
  "download_failed_prefix =
     [CHR 0xE4, CHR 0xB8, CHR 0x8B, CHR 0xE8, CHR 0xBD, CHR 0xBD, CHR 0xE5, CHR 0x9B,
      CHR 0xBE, CHR 0xE7, CHR 0x89, CHR 0x87, CHR 0xE5, CHR 0xA4, CHR 0xB1, CHR 0xE8,
      CHR 0xB4, CHR 0xA5, CHR 0x3A, CHR 0x20]"

subsection \<open>\<^verbatim>\<open>validate_config\<close>\<close>

text \<open>\<^verbatim>\<open>return bool(self.api_key)\<close>: no branch raises.\<close>

definition ReplicateGenerator_validate_config :: "replicate \<Rightarrow> exn + bool" where
  "ReplicateGenerator_validate_config g = Inr (truthy (api_key g))"

subsection \<open>\<^verbatim>\<open>_download_image\<close>\<close>

text \<open>
  One GET with a timeout of 60 seconds. Status 200 returns the body; any other status
  raises \<^verbatim>\<open>Exception("HTTP <code>")\<close> inside the \<^verbatim>\<open>try\<close>, so the handler wraps it like an
  exception of \<^verbatim>\<open>requests.get\<close> itself.
\<close>

definition download_image :: "string \<Rightarrow> string + response \<Rightarrow> (string + bytes) \<times> event list" where
  "download_image url reply =
     (let evs = [Log INFO, HttpGet url [] 60] in
      case (case reply of
              Inl m \<Rightarrow> Inl m
            | Inr response \<Rightarrow>
                if status_code response = 200 then Inr (content response)
                else Inl (''HTTP '' @ str_nat (status_code response)))
      of Inl m \<Rightarrow> (Inl (download_failed_prefix @ m), evs)
       | Inr img \<Rightarrow> (Inr img, evs))"

subsection \<open>\<^verbatim>\<open>generate_image\<close>\<close>

text \<open>\<^verbatim>\<open>output[0] if isinstance(output, list) else output\<close>; an empty list raises IndexError.\<close>

fun image_url :: "run_output \<Rightarrow> string + string" where
  "image_url (Single u) = Inr u"
| "image_url (Listed []) = Inl ''list index out of range''"
| "image_url (Listed (u # us)) = Inr u"

definition build_input_params :: "replicate \<Rightarrow> pystr \<Rightarrow> string \<Rightarrow> kwargs \<Rightarrow> input_params" where
  "build_input_params g p aspect_ratio kw =
     (let (w, h) = get_dimensions aspect_ratio in
      \<lparr> prompt = p, width = w, height = h,
        num_inference_steps = (case kwargs_steps kw of None \<Rightarrow> default_steps g | Some s \<Rightarrow> s),
        guidance_scale = (case kwargs_guidance kw of None \<Rightarrow> default_guidance g | Some s \<Rightarrow> s),
        output_format = ''png'',
        seed = kwargs_seed kw \<rparr>)"

text \<open>
  The body of the \<^verbatim>\<open>try\<close>: the remote call, the choice of the URL, the download.
\<close>

definition run_and_download :: "replicate \<Rightarrow> input_params \<Rightarrow> replicate_world \<Rightarrow> (string + bytes) \<times> event list" where
  "run_and_download g inp w =
     (let evs = [ClientRun (model g) inp] in
      case run_reply w of
        Inl m \<Rightarrow> (Inl m, evs)
      | Inr out \<Rightarrow>
          (case image_url out of
             Inl m \<Rightarrow> (Inl m, evs)
           | Inr u \<Rightarrow>
               (case download_image u (download_reply w) of (r, evs') \<Rightarrow> (r, evs @ evs'))))"

text \<open>
  \<^verbatim>\<open>generate_image(prompt, aspect_ratio, **kwargs)\<close>. The check of the import is outside
  the \<^verbatim>\<open>try\<close>. \<^verbatim>\<open>validate_config\<close> is not called.
\<close>

definition ReplicateGenerator_generate_image ::
  "replicate \<Rightarrow> pystr \<Rightarrow> string \<Rightarrow> kwargs \<Rightarrow> replicate_world \<Rightarrow> (exn + bytes) \<times> event list" where
  "ReplicateGenerator_generate_image g p aspect_ratio kw w =
     (if \<not> replicate_installed w then (Inl (ImportError ''Replicate package not installed''), [])
      else
        case run_and_download g (build_input_params g p aspect_ratio kw) w of
          (Inl m, evs) \<Rightarrow> (Inl (RuntimeError (generation_failed_prefix @ m)), Log INFO # evs @ [Log ERROR])
        | (Inr img, evs) \<Rightarrow> (Inr img, Log INFO # evs))"

section \<open>ModelScopeGenerator\<close>

subsection \<open>The generator object and its world\<close>

record modelscope = generator +
  base_url :: string
  polling_interval :: real
  timeout :: real

text \<open>
  The world of one call: what the POST of the submission gets, what the successive calls
  of \<^verbatim>\<open>requests.get\<close> get (status requests and downloads, in call order), the
  successive readings of \<^verbatim>\<open>time.time()\<close> (the wall clock: nothing makes them increase),
  and the platform. The lists are finite prefixes of what the world would answer; a run
  that needs an answer beyond them has no result (\<open>None\<close>).
\<close>

record world = platform +
  post_replies :: "(exn + response) list"
  get_replies :: "(exn + response) list"
  clock :: "real list"

type_synonym 'a run = "((exn + 'a) \<times> event list) option"

text \<open>\<open>emit evs r\<close>: the events \<open>evs\<close> happen, then the run \<open>r\<close>.\<close>

definition emit :: "event list \<Rightarrow> 'a run \<Rightarrow> 'a run" where
  "emit evs r = map_option (\<lambda>(v, tr). (v, evs @ tr)) r"

definition MAX_PROMPT_LENGTH :: nat where
  "MAX_PROMPT_LENGTH = 1800"

subsection \<open>\<^verbatim>\<open>validate_config\<close>\<close>

definition ModelScopeGenerator_validate_config :: "modelscope \<Rightarrow> exn + bool" where
  "ModelScopeGenerator_validate_config g =
     (if \<not> truthy (api_key g) then Inl (ValueError ''ModelScope API Key is required'')
      else Inr True)"

subsection \<open>The pieces of \<^verbatim>\<open>generate_image\<close>\<close>

text \<open>\<^verbatim>\<open>f"Bearer {self.api_key}"\<close>\<close>

definition bearer :: "modelscope \<Rightarrow> string" where
  "bearer g = ''Bearer '' @ (case api_key g of None \<Rightarrow> ''None'' | Some k \<Rightarrow> k)"

definition submit_headers :: "modelscope \<Rightarrow> (string \<times> string) list" where
  "submit_headers g =
     [(''Authorization'', bearer g),
      (''Content-Type'', ''application/json''),
      (''X-ModelScope-Async-Mode'', ''true'')]"

definition status_headers :: "modelscope \<Rightarrow> (string \<times> string) list" where
  "status_headers g =
     [(''Authorization'', bearer g),
      (''Content-Type'', ''application/json''),
      (''X-ModelScope-Task-Type'', ''image_generation'')]"

text \<open>\<^verbatim>\<open>self.base_url if self.base_url.endswith('/') else f"{self.base_url}/"\<close>\<close>

definition slashed :: "string \<Rightarrow> string" where
  "slashed u = (if u \<noteq> [] \<and> last u = CHR ''/'' then u else u @ ''/'')"

text \<open>
  Lines 57 to 60: the prompt that goes into the payload, and the warning logged when it
  was cut.
\<close>

definition truncate_prompt :: "pystr \<Rightarrow> pystr \<times> event list" where
  "truncate_prompt p =
     (if length p > MAX_PROMPT_LENGTH then (take MAX_PROMPT_LENGTH p, [Log WARNING])
      else (p, []))"

text \<open>
  The \<^verbatim>\<open>try\<close> of the submission, given what \<^verbatim>\<open>requests.post\<close> did: the task id, or the
  exception that leaves the \<^verbatim>\<open>try\<close> body, with the events of the body.
\<close>

definition submit_body :: "exn + response \<Rightarrow> (exn + string) \<times> event list" where
  "submit_body reply =
     (case reply of
        Inl e \<Rightarrow> (Inl e, [])
      | Inr response \<Rightarrow>
          (let evs = (if status_code response \<noteq> 200 then [Log ERROR] else []) in
           case raise_for_status response of
             Some e \<Rightarrow> (Inl e, evs)
           | None \<Rightarrow>
               (case json response of
                  Inl e \<Rightarrow> (Inl e, evs)
                | Inr body \<Rightarrow>
                    (case task_id body of
                       None \<Rightarrow> (Inl (KeyError ''task_id''), evs)
                     | Some tid \<Rightarrow> (Inr tid, evs @ [Log INFO])))))"

text \<open>
  The handler of the submission: \<^verbatim>\<open>except RequestException as e\<close> logs (twice when
  \<^verbatim>\<open>e.response\<close> is set) and re-raises; any other exception passes untouched.
\<close>

definition submit_handler :: "exn \<Rightarrow> event list" where
  "submit_handler e =
     (if is_RequestException e
      then Log ERROR # (if has_response e then [Log ERROR] else [])
      else [])"

text \<open>
  The body of the \<^verbatim>\<open>try\<close> inside the polling loop, lines 100 to 127. It ends in one of
  three ways: by \<^verbatim>\<open>return\<close>, by an exception, or by falling through its last statement
  (the sleep of line 127, when it returns; when \<^verbatim>\<open>time.sleep\<close> raises, that is an exception
  of the body). It consumes one reply of \<^verbatim>\<open>requests.get\<close>, and a second one when it
  downloads.
\<close>

datatype step = Returned bytes | Raised exn | Fell_through

definition poll_body ::
  "'a platform_scheme \<Rightarrow> modelscope \<Rightarrow> string \<Rightarrow> string \<Rightarrow> (exn + response) list
     \<Rightarrow> (step \<times> event list \<times> (exn + response) list) option" where
  "poll_body pf g burl tid gets =
     (case gets of
        [] \<Rightarrow> None
      | reply # gets1 \<Rightarrow>
          (let ev1 = [HttpGet (burl @ ''v1/tasks/'' @ tid) (status_headers g) 10] in
           case reply of
             Inl e \<Rightarrow> Some (Raised e, ev1, gets1)
           | Inr result_response \<Rightarrow>
               (case raise_for_status result_response of
                  Some e \<Rightarrow> Some (Raised e, ev1, gets1)
                | None \<Rightarrow>
                    (case json result_response of
                       Inl e \<Rightarrow> Some (Raised e, ev1, gets1)
                     | Inr data \<Rightarrow>
                         if task_status data = Some ''SUCCEED'' then
                           (case output_images data of
                              None \<Rightarrow> Some (Raised (KeyError ''output_images''), ev1, gets1)
                            | Some [] \<Rightarrow> Some (Raised (IndexError ''list index out of range''), ev1, gets1)
                            | Some (output_url # others) \<Rightarrow>
                                (let ev2 = ev1 @ [Log INFO, HttpGet output_url [] 30] in
                                 case gets1 of
                                   [] \<Rightarrow> None
                                 | Inl e # gets2 \<Rightarrow> Some (Raised e, ev2, gets2)
                                 | Inr image_response # gets2 \<Rightarrow>
                                     (case raise_for_status image_response of
                                        Some e \<Rightarrow> Some (Raised e, ev2, gets2)
                                      | None \<Rightarrow> Some (Returned (content image_response), ev2, gets2))))
                         else if task_status data = Some ''FAILED'' then
                           Some (Raised (RuntimeError (''Image generation failed: '' @
                                   (case message data of None \<Rightarrow> ''Unknown error'' | Some m \<Rightarrow> m))),
                                 ev1 @ [Log ERROR], gets1)
                         else
                           (case time_sleep pf (polling_interval g) of
                              Some e \<Rightarrow> Some (Raised e, ev1, gets1)
                            | None \<Rightarrow>
                                Some (Fell_through, ev1 @ [Sleep (polling_interval g)], gets1))))))"

text \<open>
  The \<^verbatim>\<open>while True\<close> loop, lines 95 to 134. One equation is one iteration: it reads the
  clock, subtracts (the float subtraction of the platform), compares, runs the
  \<^verbatim>\<open>try\<close> body, and the handler catches a \<open>RequestException\<close> of the body (log, sleep,
  next iteration). An exception of the handler's own \<^verbatim>\<open>time.sleep\<close> leaves the loop. The
  recursion is on the clock readings.
\<close>

fun poll_loop ::
  "'a platform_scheme \<Rightarrow> modelscope \<Rightarrow> string \<Rightarrow> string \<Rightarrow> real \<Rightarrow> real list
     \<Rightarrow> (exn + response) list \<Rightarrow> bytes run" where
  "poll_loop pf g burl tid start_time [] gets = None"
| "poll_loop pf g burl tid start_time (now # clk) gets =
     (if float_sub pf now start_time > timeout g
      then Some (Inl (TimeoutError (timeout g)), [])
      else
        case poll_body pf g burl tid gets of
          None \<Rightarrow> None
        | Some (Returned img, evs, gets') \<Rightarrow> Some (Inr img, evs)
        | Some (Raised e, evs, gets') \<Rightarrow>
            if is_RequestException e
            then
              (case time_sleep pf (polling_interval g) of
                 Some e' \<Rightarrow> Some (Inl e', evs @ [Log ERROR])
               | None \<Rightarrow>
                   emit (evs @ [Log ERROR, Sleep (polling_interval g)])
                     (poll_loop pf g burl tid start_time clk gets'))
            else Some (Inl e, evs)
        | Some (Fell_through, evs, gets') \<Rightarrow>
            emit evs (poll_loop pf g burl tid start_time clk gets'))"

subsection \<open>\<^verbatim>\<open>generate_image\<close>\<close>

text \<open>The events up to and including the POST, for a prompt \<open>p\<close>.\<close>

definition submit_events :: "modelscope \<Rightarrow> pystr \<Rightarrow> event list" where
  "submit_events g p =
     snd (truncate_prompt p) @
     [Log INFO,
      HttpPost (slashed (base_url g) @ ''v1/images/generations'') (submit_headers g)
        \<lparr> payload_model = model g, payload_prompt = fst (truncate_prompt p) \<rparr> 30]"

text \<open>
  \<^verbatim>\<open>generate_image(prompt)\<close>. The argument of \<^verbatim>\<open>requests.post\<close>,
  \<^verbatim>\<open>json.dumps(payload, ensure_ascii=False).encode('utf-8')\<close> (line 76), is evaluated before
  the call: when the prompt of the payload cannot be encoded, \<open>UnicodeEncodeError\<close> leaves
  the \<^verbatim>\<open>try\<close> (the handler catches \<open>RequestException\<close> only) and nothing is sent.
\<close>

definition ModelScopeGenerator_generate_image :: "modelscope \<Rightarrow> pystr \<Rightarrow> world \<Rightarrow> bytes run" where
  "ModelScopeGenerator_generate_image g p w =
     (case ModelScopeGenerator_validate_config g of
        Inl e \<Rightarrow> Some (Inl e, [])
      | Inr ok \<Rightarrow>
          if \<not> encodable (fst (truncate_prompt p))
          then Some (Inl UnicodeEncodeError, snd (truncate_prompt p) @ [Log INFO])
          else
            (case post_replies w of
               [] \<Rightarrow> None
             | reply # rest \<Rightarrow>
                 (case submit_body reply of
                    (Inl e, evs) \<Rightarrow> Some (Inl e, submit_events g p @ evs @ submit_handler e)
                  | (Inr tid, evs) \<Rightarrow>
                      (case clock w of
                         [] \<Rightarrow> None
                       | start_time # clk \<Rightarrow>
                           emit (submit_events g p @ evs)
                             (poll_loop w g (slashed (base_url g)) tid start_time clk
                                (get_replies w))))))"

subsection \<open>Vocabulary for the statements about \<^verbatim>\<open>generate_image\<close>\<close>

text \<open>
  \<open>accepts reply tid\<close>: the submission got a response that passes \<^verbatim>\<open>raise_for_status\<close>
  and whose JSON body carries the task id \<open>tid\<close>. \<open>accepted_events\<close> are the events of the
  \<^verbatim>\<open>try\<close> body then.
\<close>

fun accepts :: "exn + response \<Rightarrow> string \<Rightarrow> bool" where
  "accepts (Inl e) tid = False"
| "accepts (Inr r) tid =
     (\<not> (400 \<le> status_code r \<and> status_code r < 600) \<and>
      (case json r of Inl e \<Rightarrow> False | Inr body \<Rightarrow> task_id body = Some tid))"

fun accepted_events :: "exn + response \<Rightarrow> event list" where
  "accepted_events (Inl e) = []"
| "accepted_events (Inr r) = (if status_code r \<noteq> 200 then [Log ERROR, Log INFO] else [Log INFO])"

text \<open>
  A poll outcome is \<open>pending\<close> when the status request got a response that passes
  \<^verbatim>\<open>raise_for_status\<close>, parses, and reports a status that is neither \<open>SUCCEED\<close> nor
  \<open>FAILED\<close> (\<open>PENDING\<close>, any other value, or no \<open>task_status\<close> at all). It is \<open>transient\<close>
  when the request ends in a \<open>RequestException\<close>: raised by \<^verbatim>\<open>requests.get\<close> (a transport
  failure), by \<^verbatim>\<open>raise_for_status\<close> (a 4xx or 5xx status), or by \<^verbatim>\<open>.json()\<close>. It is
  \<open>non_terminal\<close> in both cases.
\<close>

fun pending :: "exn + response \<Rightarrow> bool" where
  "pending (Inl e) = False"
| "pending (Inr r) =
     (\<not> (400 \<le> status_code r \<and> status_code r < 600) \<and>
      (case json r of
         Inl e \<Rightarrow> False
       | Inr data \<Rightarrow> task_status data \<noteq> Some ''SUCCEED'' \<and> task_status data \<noteq> Some ''FAILED''))"

fun transient :: "exn + response \<Rightarrow> bool" where
  "transient (Inl e) = is_RequestException e"
| "transient (Inr r) =
     ((400 \<le> status_code r \<and> status_code r < 600) \<or>
      (case json r of Inl e \<Rightarrow> is_RequestException e | Inr data \<Rightarrow> False))"

definition non_terminal :: "exn + response \<Rightarrow> bool" where
  "non_terminal reply = (pending reply \<or> transient reply)"

text \<open>
  The status request of one iteration, and the events of a nonterminal iteration whose
  sleep returns.
\<close>

definition status_request :: "modelscope \<Rightarrow> string \<Rightarrow> string \<Rightarrow> event" where
  "status_request g burl tid = HttpGet (burl @ ''v1/tasks/'' @ tid) (status_headers g) 10"

definition retry_events :: "modelscope \<Rightarrow> string \<Rightarrow> string \<Rightarrow> exn + response \<Rightarrow> event list" where
  "retry_events g burl tid reply =
     (if pending reply then [status_request g burl tid, Sleep (polling_interval g)]
      else [status_request g burl tid, Log ERROR, Sleep (polling_interval g)])"

text \<open>
  \<open>succeeded r u\<close>: the status response \<open>r\<close> reports \<open>SUCCEED\<close> and \<open>u\<close> is the first of its
  \<open>output_images\<close>. \<open>failed r m\<close>: it reports \<open>FAILED\<close> with the message \<open>m\<close>.
  \<open>download_fails d\<close>: the GET of the output URL ends in a \<open>RequestException\<close>.
\<close>

definition succeeded :: "response \<Rightarrow> string \<Rightarrow> bool" where
  "succeeded r u =
     (\<not> (400 \<le> status_code r \<and> status_code r < 600) \<and>
      (case json r of
         Inl e \<Rightarrow> False
       | Inr data \<Rightarrow>
           task_status data = Some ''SUCCEED'' \<and>
           (case output_images data of Some (v # vs) \<Rightarrow> v = u | _ \<Rightarrow> False)))"

definition failed :: "response \<Rightarrow> string \<Rightarrow> bool" where
  "failed r m =
     (\<not> (400 \<le> status_code r \<and> status_code r < 600) \<and>
      (case json r of
         Inl e \<Rightarrow> False
       | Inr data \<Rightarrow> task_status data = Some ''FAILED'' \<and> message data = Some m))"


text \<open>The events of an iteration that sees \<open>SUCCEED\<close> and starts the download of \<open>u\<close>.\<close>

definition download_events :: "modelscope \<Rightarrow> string \<Rightarrow> string \<Rightarrow> string \<Rightarrow> event list" where
  "download_events g burl tid u = [status_request g burl tid, Log INFO, HttpGet u [] 30]"

subsection \<open>Concrete inputs\<close>

text \<open>
  A generator with the defaults of \<^verbatim>\<open>__init__\<close> and a key, the replies of a cooperative
  service, and a transport failure.
\<close>

definition example_generator :: modelscope where
  "example_generator =
     \<lparr> api_key = Some ''sk-test'', model = ''Tongyi-MAI/Z-Image-Turbo'',
       base_url = ''https://api-inference.modelscope.cn/'',
       polling_interval = 2, timeout = 60 \<rparr>"

definition accepted_reply :: "string \<Rightarrow> exn + response" where
  "accepted_reply tid =
     Inr \<lparr> status_code = 200,
           json = Inr \<lparr> task_id = Some tid, task_status = None, output_images = None,
                         message = None \<rparr>,
           content = [] \<rparr>"

definition status_reply :: "string \<Rightarrow> string list option \<Rightarrow> string option \<Rightarrow> exn + response" where
  "status_reply s imgs m =
     Inr \<lparr> status_code = 200,
           json = Inr \<lparr> task_id = None, task_status = Some s, output_images = imgs,
                         message = m \<rparr>,
           content = [] \<rparr>"

definition image_response :: "nat \<Rightarrow> bytes \<Rightarrow> response" where
  "image_response c b =
     \<lparr> status_code = c, json = Inl (Exception ''Expecting value''), content = b \<rparr>"

definition connection_error :: "exn + response" where
  "connection_error = Inl (RequestException ''Connection aborted.'' False)"

definition png :: bytes where
  "png = [0x89, 0x50, 0x4E, 0x47]"

text \<open>
  A generator whose timeout (1 second) is shorter than its polling interval (2 seconds),
  and a prompt of 1801 characters that starts with a lone surrogate.
\<close>

definition hasty_generator :: modelscope where
  "hasty_generator = example_generator \<lparr> timeout := 1 \<rparr>"

definition surrogate_prompt :: pystr where
  "surrogate_prompt = 0xD800 # replicate 1800 97"

text \<open>
  A platform for clock readings that are integers well below \<open>2^53\<close>, for which the
  float subtraction is exact, and the world of a cooperative service on it.
\<close>

definition exact_platform :: platform where
  "exact_platform =
     \<lparr> float_sub = (\<lambda>a b. a - b),
       time_sleep = (\<lambda>d. if d < 0 then Some (ValueError ''sleep length must be non-negative'')
                         else None) \<rparr>"

definition world_of ::
  "(exn + response) list \<Rightarrow> (exn + response) list \<Rightarrow> real list \<Rightarrow> world" where
  "world_of posts gets readings =
     \<lparr> float_sub = float_sub exact_platform, time_sleep = time_sleep exact_platform,
       post_replies = posts, get_replies = gets, clock = readings \<rparr>"

definition service :: "(exn + response) list \<Rightarrow> real list \<Rightarrow> world" where
  "service gets readings = world_of [accepted_reply ''t1''] gets readings"

definition example_replicate :: replicate where
  "example_replicate =
     \<lparr> api_key = None, model = ''prunaai/z-image-turbo'',
       default_steps = 9, default_guidance = 0 \<rparr>"

definition no_kwargs :: kwargs where
  "no_kwargs = \<lparr> kwargs_steps = None, kwargs_guidance = None, kwargs_seed = None \<rparr>"

section \<open>Evaluation lemmas\<close>

lemmas example_defs =
  example_generator_def accepted_reply_def status_reply_def image_response_def
  connection_error_def png_def

lemma str_nat_404: "str_nat 404 = ''404''"
  by code_simp

section \<open>Properties of ReplicateGenerator\<close>

text \<open>
  Claim C8. For every aspect-ratio string that is not a key of the lookup table
  \<open>{1:1, 3:4, 4:3, 9:16, 16:9}\<close>, \<^verbatim>\<open>_get_dimensions\<close> returns the default \<open>(1024, 1024)\<close>
  (it does not fail); for each key of the table it returns the table's pair.
\<close>

theorem get_dimensions_table_or_default:
  "(a \<notin> {''1:1'', ''3:4'', ''4:3'', ''9:16'', ''16:9''} \<longrightarrow> get_dimensions a = (1024, 1024))
   \<and> get_dimensions ''1:1'' = (1024, 1024)
   \<and> get_dimensions ''3:4'' = (896, 1152)
   \<and> get_dimensions ''4:3'' = (1152, 896)
   \<and> get_dimensions ''9:16'' = (768, 1344)
   \<and> get_dimensions ''16:9'' = (1344, 768)"
  by (simp add: get_dimensions_def ratios_def)

theorem get_dimensions_table_or_default_witness:
  "''2:1'' \<notin> {''1:1'', ''3:4'', ''4:3'', ''9:16'', ''16:9''}
   \<and> get_dimensions ''2:1'' = (1024, 1024)"
  using get_dimensions_table_or_default [of "''2:1''"] by simp

text \<open>
  Claim C10. \<^verbatim>\<open>_get_dimensions\<close> is a total function of its argument alone, and its table
  is symmetric under swapping width and height: the pair for \<open>3:4\<close> is the swapped pair
  for \<open>4:3\<close>, the pair for \<open>9:16\<close> is the swapped pair for \<open>16:9\<close>, and the pair for
  \<open>1:1\<close> and the pair for every ratio outside the table is its own swap.
\<close>

theorem get_dimensions_swap_symmetric:
  "get_dimensions ''3:4'' = prod.swap (get_dimensions ''4:3'')
   \<and> get_dimensions ''9:16'' = prod.swap (get_dimensions ''16:9'')
   \<and> prod.swap (get_dimensions ''1:1'') = get_dimensions ''1:1''
   \<and> (a \<notin> fst ` set ratios \<longrightarrow> prod.swap (get_dimensions a) = get_dimensions a)"
  by (simp add: get_dimensions_def ratios_def)

theorem get_dimensions_swap_symmetric_witness:
  "''21:9'' \<notin> fst ` set ratios
   \<and> prod.swap (get_dimensions ''21:9'') = get_dimensions ''21:9''
   \<and> get_dimensions ''21:9'' = (1024, 1024)"
  using get_dimensions_swap_symmetric [of "''21:9''"]
  by (simp add: get_dimensions_def ratios_def)

text \<open>
  Claim C9. In \<^verbatim>\<open>ReplicateGenerator.generate_image\<close> (the package being installed), an
  exception of the remote call \<^verbatim>\<open>client.run\<close> with text \<open>m\<close> is re-raised as a
  \<open>RuntimeError\<close> whose message is the generation-failure prefix followed by \<open>m\<close>; an
  exception of the download with text \<open>m\<close>, and a response whose status is not 200 (text
  \<open>HTTP <code>\<close>), is re-raised as a \<open>RuntimeError\<close> whose message is the
  generation-failure prefix, the download-failure prefix, then \<open>m\<close>. The remote result is
  a single URL or a list of URLs; of a list the first element is downloaded. Status 200
  returns the body.
\<close>

theorem replicate_generate_image_wraps:
  assumes "replicate_installed w"
  shows "(run_reply w = Inl m \<longrightarrow>
            ReplicateGenerator_generate_image g p a kw w =
              (Inl (RuntimeError (generation_failed_prefix @ m)),
               [Log INFO, ClientRun (model g) (build_input_params g p a kw), Log ERROR]))
       \<and> (run_reply w = Inr out \<and> image_url out = Inr u \<and> download_reply w = Inl m \<longrightarrow>
            ReplicateGenerator_generate_image g p a kw w =
              (Inl (RuntimeError (generation_failed_prefix @ download_failed_prefix @ m)),
               [Log INFO, ClientRun (model g) (build_input_params g p a kw),
                Log INFO, HttpGet u [] 60, Log ERROR]))
       \<and> (run_reply w = Inr out \<and> image_url out = Inr u \<and> download_reply w = Inr resp
            \<and> status_code resp \<noteq> 200 \<longrightarrow>
            ReplicateGenerator_generate_image g p a kw w =
              (Inl (RuntimeError (generation_failed_prefix @ download_failed_prefix @
                      ''HTTP '' @ str_nat (status_code resp))),
               [Log INFO, ClientRun (model g) (build_input_params g p a kw),
                Log INFO, HttpGet u [] 60, Log ERROR]))
       \<and> (run_reply w = Inr out \<and> image_url out = Inr u \<and> download_reply w = Inr resp
            \<and> status_code resp = 200 \<longrightarrow>
            ReplicateGenerator_generate_image g p a kw w =
              (Inr (content resp),
               [Log INFO, ClientRun (model g) (build_input_params g p a kw),
                Log INFO, HttpGet u [] 60]))
       \<and> image_url (Single u) = Inr u
       \<and> image_url (Listed (u # us)) = Inr u"
  using assms
  by (simp add: ReplicateGenerator_generate_image_def run_and_download_def download_image_def)

theorem replicate_generate_image_wraps_witness:
  "ReplicateGenerator_generate_image example_replicate [104, 105] ''16:9'' no_kwargs
     \<lparr> replicate_installed = True, run_reply = Inl ''Unauthenticated'',
       download_reply = Inr (image_response 200 png) \<rparr> =
     (Inl (RuntimeError (generation_failed_prefix @ ''Unauthenticated'')),
      [Log INFO,
       ClientRun ''prunaai/z-image-turbo''
         (build_input_params example_replicate [104, 105] ''16:9'' no_kwargs),
       Log ERROR])
   \<and> ReplicateGenerator_generate_image example_replicate [104, 105] ''16:9'' no_kwargs
     \<lparr> replicate_installed = True,
       run_reply = Inr (Listed [''http://x/y.png'', ''http://x/z.png'']),
       download_reply = Inr (image_response 404 []) \<rparr> =
     (Inl (RuntimeError (generation_failed_prefix @ download_failed_prefix @ ''HTTP 404'')),
      [Log INFO,
       ClientRun ''prunaai/z-image-turbo''
         (build_input_params example_replicate [104, 105] ''16:9'' no_kwargs),
       Log INFO, HttpGet ''http://x/y.png'' [] 60, Log ERROR])
   \<and> ReplicateGenerator_generate_image example_replicate [104, 105] ''16:9'' no_kwargs
     \<lparr> replicate_installed = True,
       run_reply = Inr (Single ''http://x/y.png''),
       download_reply = Inl ''Read timed out.'' \<rparr> =
     (Inl (RuntimeError (generation_failed_prefix @ download_failed_prefix @ ''Read timed out.'')),
      [Log INFO,
       ClientRun ''prunaai/z-image-turbo''
         (build_input_params example_replicate [104, 105] ''16:9'' no_kwargs),
       Log INFO, HttpGet ''http://x/y.png'' [] 60, Log ERROR])
   \<and> ReplicateGenerator_generate_image example_replicate [104, 105] ''16:9'' no_kwargs
     \<lparr> replicate_installed = True,
       run_reply = Inr (Listed [''http://x/y.png'', ''http://x/z.png'']),
       download_reply = Inr (image_response 200 png) \<rparr> =
     (Inr png,
      [Log INFO,
       ClientRun ''prunaai/z-image-turbo''
         (build_input_params example_replicate [104, 105] ''16:9'' no_kwargs),
       Log INFO, HttpGet ''http://x/y.png'' [] 60])"
  using replicate_generate_image_wraps
      [where g = example_replicate and p = "[104, 105]" and a = "''16:9''" and kw = no_kwargs
         and m = "''Unauthenticated''"
         and w = "\<lparr> replicate_installed = True, run_reply = Inl ''Unauthenticated'',
                    download_reply = Inr (image_response 200 png) \<rparr>"]
    replicate_generate_image_wraps
      [where g = example_replicate and p = "[104, 105]" and a = "''16:9''" and kw = no_kwargs
         and out = "Listed [''http://x/y.png'', ''http://x/z.png'']" and u = "''http://x/y.png''"
         and resp = "image_response 404 []"
         and w = "\<lparr> replicate_installed = True,
                    run_reply = Inr (Listed [''http://x/y.png'', ''http://x/z.png'']),
                    download_reply = Inr (image_response 404 []) \<rparr>"]
    replicate_generate_image_wraps
      [where g = example_replicate and p = "[104, 105]" and a = "''16:9''" and kw = no_kwargs
         and out = "Single ''http://x/y.png''" and u = "''http://x/y.png''"
         and m = "''Read timed out.''"
         and w = "\<lparr> replicate_installed = True,
                    run_reply = Inr (Single ''http://x/y.png''),
                    download_reply = Inl ''Read timed out.'' \<rparr>"]
    replicate_generate_image_wraps
      [where g = example_replicate and p = "[104, 105]" and a = "''16:9''" and kw = no_kwargs
         and out = "Listed [''http://x/y.png'', ''http://x/z.png'']" and u = "''http://x/y.png''"
         and resp = "image_response 200 png"
         and w = "\<lparr> replicate_installed = True,
                    run_reply = Inr (Listed [''http://x/y.png'', ''http://x/z.png'']),
                    download_reply = Inr (image_response 200 png) \<rparr>"]
  by (simp add: example_replicate_def image_response_def png_def str_nat_404)

section \<open>Properties of ModelScopeGenerator\<close>

subsection \<open>Lemmas on the run and the loop\<close>

lemma emit_Nil: "emit [] r = r"
  by (cases r) (auto simp: emit_def)

lemma emit_emit: "emit a (emit b r) = emit (a @ b) r"
  by (cases r) (auto simp: emit_def)

lemma emit_Some: "emit evs (Some (v, tr)) = Some (v, evs @ tr)"
  by (simp add: emit_def)


lemma fst_truncate_prompt: "fst (truncate_prompt p) = take 1800 p"
  by (simp add: truncate_prompt_def MAX_PROMPT_LENGTH_def)


lemma poll_body_pending:
  "pending reply \<Longrightarrow> time_sleep pf (polling_interval g) = None \<Longrightarrow>
   poll_body pf g burl tid (reply # gets) =
     Some (Fell_through, [status_request g burl tid, Sleep (polling_interval g)], gets)"
  by (cases reply)
     (auto simp: poll_body_def status_request_def raise_for_status_def split: sum.splits)

lemma poll_body_transient:
  "transient reply \<Longrightarrow>
   \<exists>e. is_RequestException e \<and>
       poll_body pf g burl tid (reply # gets) = Some (Raised e, [status_request g burl tid], gets)"
  by (cases reply)
     (auto simp: poll_body_def status_request_def raise_for_status_def split: sum.splits)

lemma poll_loop_retry_step:
  assumes "non_terminal reply" and "\<not> float_sub pf now start > timeout g"
    and "time_sleep pf (polling_interval g) = None"
  shows "poll_loop pf g burl tid start (now # clk) (reply # gets) =
           emit (retry_events g burl tid reply) (poll_loop pf g burl tid start clk gets)"
proof (cases "pending reply")
  case True
  then show ?thesis
    using assms(2,3) by (simp add: poll_body_pending retry_events_def)
next
  case False
  with assms(1) have "transient reply" by (simp add: non_terminal_def)
  then obtain e where "is_RequestException e"
    and "poll_body pf g burl tid (reply # gets) = Some (Raised e, [status_request g burl tid], gets)"
    using poll_body_transient by blast
  then show ?thesis
    using assms(2,3) False by (simp add: retry_events_def)
qed

lemma poll_loop_retry_prefix:
  assumes "list_all non_terminal os" and "length ts = length os"
    and "\<forall>t \<in> set ts. \<not> float_sub pf t start > timeout g"
    and "os \<noteq> [] \<longrightarrow> time_sleep pf (polling_interval g) = None"
  shows "poll_loop pf g burl tid start (ts @ clk) (os @ gets) =
           emit (concat (map (retry_events g burl tid) os))
             (poll_loop pf g burl tid start clk gets)"
  using assms
proof (induction os arbitrary: ts)
  case Nil
  then show ?case by (simp add: emit_Nil)
next
  case (Cons reply os)
  then obtain t ts' where ts: "ts = t # ts'" by (cases ts) auto
  with Cons.prems have step: "non_terminal reply" "\<not> float_sub pf t start > timeout g"
      "time_sleep pf (polling_interval g) = None"
    and rest: "list_all non_terminal os" "length ts' = length os"
      "\<forall>t \<in> set ts'. \<not> float_sub pf t start > timeout g" "os \<noteq> [] \<longrightarrow> time_sleep pf (polling_interval g) = None"
    by auto
  show ?case
    unfolding ts using poll_loop_retry_step [OF step] Cons.IH [OF rest]
    by (simp add: emit_emit)
qed

lemma submit_body_accepts:
  "accepts reply tid \<Longrightarrow> submit_body reply = (Inr tid, accepted_events reply)"
  by (cases reply) (auto simp: submit_body_def raise_for_status_def split: sum.splits)

lemma generate_image_accepted:
  assumes "truthy (api_key g)" and "encodable (take 1800 p)"
    and "post_replies w = reply # rest" and "accepts reply tid"
    and "clock w = start # clk"
  shows "ModelScopeGenerator_generate_image g p w =
           emit (submit_events g p @ accepted_events reply)
             (poll_loop w g (slashed (base_url g)) tid start clk (get_replies w))"
  using assms
  by (simp add: ModelScopeGenerator_generate_image_def ModelScopeGenerator_validate_config_def
      submit_body_accepts fst_truncate_prompt)

lemma generate_image_rejected:
  assumes "truthy (api_key g)" and "encodable (take 1800 p)"
    and "post_replies w = reply # rest" and "submit_body reply = (Inl e, evs)"
  shows "ModelScopeGenerator_generate_image g p w =
           Some (Inl e, submit_events g p @ evs @ submit_handler e)"
  using assms
  by (simp add: ModelScopeGenerator_generate_image_def ModelScopeGenerator_validate_config_def
      fst_truncate_prompt)



lemma gets_submit_events: "filter is_HttpGet (submit_events g p) = []"
  by (simp add: submit_events_def truncate_prompt_def)

lemma gets_accepted_events: "filter is_HttpGet (accepted_events reply) = []"
  by (cases reply) auto

lemma gets_retry_events:
  "length (filter is_HttpGet (concat (map (retry_events g burl tid) os))) = length os"
  by (induction os) (auto simp: retry_events_def status_request_def)

lemma sleeps_submit_events: "filter is_Sleep (submit_events g p) = []"
  by (simp add: submit_events_def truncate_prompt_def)

lemma sleeps_accepted_events: "filter is_Sleep (accepted_events reply) = []"
  by (cases reply) auto

lemma sleeps_retry_events:
  "filter is_Sleep (concat (map (retry_events g burl tid) os)) =
     replicate (length os) (Sleep (polling_interval g))"
  by (induction os) (auto simp: retry_events_def status_request_def)

lemma poll_loop_timeout:
  "float_sub pf now start > timeout g \<Longrightarrow>
   poll_loop pf g burl tid start (now # clk) gets = Some (Inl (TimeoutError (timeout g)), [])"
  by simp

lemma poll_body_succeeded:
  "succeeded sr u \<Longrightarrow>
   poll_body pf g burl tid (Inr sr # d # gets) =
     (case d of
        Inl e \<Rightarrow> Some (Raised e, download_events g burl tid u, gets)
      | Inr ir \<Rightarrow>
          (case raise_for_status ir of
             Some e \<Rightarrow> Some (Raised e, download_events g burl tid u, gets)
           | None \<Rightarrow> Some (Returned (content ir), download_events g burl tid u, gets)))"
  by (auto simp: succeeded_def poll_body_def download_events_def status_request_def
      raise_for_status_def split: sum.splits option.splits list.splits)

lemma poll_body_failed:
  "failed fr m \<Longrightarrow>
   poll_body pf g burl tid (Inr fr # gets) =
     Some (Raised (RuntimeError (''Image generation failed: '' @ m)),
           [status_request g burl tid, Log ERROR], gets)"
  by (auto simp: failed_def poll_body_def status_request_def raise_for_status_def
      split: sum.splits)




lemmas world_defs =
  service_def world_of_def exact_platform_def hasty_generator_def surrogate_prompt_def

subsection \<open>Configuration\<close>

text \<open>
  Claim C2, as the code has it. For \<^verbatim>\<open>ModelScopeGenerator\<close>, when \<^verbatim>\<open>api_key\<close> is absent
  (\<^verbatim>\<open>None\<close> or empty) \<^verbatim>\<open>validate_config\<close> raises \<open>ValueError\<close>, and \<^verbatim>\<open>generate_image\<close>
  calls it first: the run ends in that error with no event at all, so before any network
  operation, whatever the world would answer. For \<^verbatim>\<open>ReplicateGenerator\<close>,
  \<^verbatim>\<open>validate_config\<close> never raises: it returns whether the key is present.
\<close>

theorem validate_config_by_variant:
  "(\<not> truthy (api_key g) \<longrightarrow>
      ModelScopeGenerator_validate_config g = Inl (ValueError ''ModelScope API Key is required'')
    \<and> ModelScopeGenerator_generate_image g p w =
        Some (Inl (ValueError ''ModelScope API Key is required''), []))
   \<and> (truthy (api_key g) \<longrightarrow> ModelScopeGenerator_validate_config g = Inr True)
   \<and> ReplicateGenerator_validate_config r = Inr (truthy (api_key r))"
  by (simp add: ModelScopeGenerator_validate_config_def ModelScopeGenerator_generate_image_def
      ReplicateGenerator_validate_config_def)

theorem validate_config_by_variant_witness:
  "\<not> truthy (api_key (example_generator \<lparr> api_key := None \<rparr>))
   \<and> ModelScopeGenerator_validate_config (example_generator \<lparr> api_key := None \<rparr>) =
       Inl (ValueError ''ModelScope API Key is required'')
   \<and> ModelScopeGenerator_generate_image (example_generator \<lparr> api_key := Some [] \<rparr>) [104, 105]
       (service [] [100]) =
       Some (Inl (ValueError ''ModelScope API Key is required''), [])
   \<and> truthy (api_key example_generator)
   \<and> ModelScopeGenerator_validate_config example_generator = Inr True"
  using validate_config_by_variant [where g = "example_generator \<lparr> api_key := None \<rparr>"]
    validate_config_by_variant [where g = "example_generator \<lparr> api_key := Some [] \<rparr>"
      and p = "[104, 105]" and w = "service [] [100]"]
    validate_config_by_variant [where g = example_generator]
  by (simp add: example_generator_def)

text \<open>
  Claim C2 as stated ("for every generator variant ... raises ... and is invoked by
  \<^verbatim>\<open>generate_image\<close> before any network operation") fails for \<^verbatim>\<open>ReplicateGenerator\<close>:
  with no key, \<^verbatim>\<open>validate_config\<close> returns \<^verbatim>\<open>False\<close>, and \<^verbatim>\<open>generate_image\<close> goes on to the
  remote call and the download and returns the image.
\<close>

theorem replicate_validate_config_does_not_raise:
  "ReplicateGenerator_validate_config example_replicate = Inr False
   \<and> ReplicateGenerator_generate_image example_replicate [104, 105] ''3:4'' no_kwargs
       \<lparr> replicate_installed = True, run_reply = Inr (Single ''http://x/y.png''),
         download_reply = Inr (image_response 200 png) \<rparr> =
      (Inr png,
       [Log INFO,
        ClientRun ''prunaai/z-image-turbo''
          \<lparr> prompt = [104, 105], width = 896, height = 1152, num_inference_steps = 9,
            guidance_scale = 0, output_format = ''png'', seed = None \<rparr>,
        Log INFO, HttpGet ''http://x/y.png'' [] 60])"
  by (simp add: ReplicateGenerator_validate_config_def ReplicateGenerator_generate_image_def
      example_replicate_def no_kwargs_def run_and_download_def download_image_def
      build_input_params_def get_dimensions_def ratios_def image_response_def png_def)

subsection \<open>Submission\<close>




text \<open>
  Claim C5. In \<^verbatim>\<open>ModelScopeGenerator.generate_image\<close> (the payload being sent), if the
  submission gets a 2xx response whose (parsed) body has no \<open>task_id\<close>, the call raises
  at once (\<open>KeyError\<close>, which the handler of the submission does not catch) and never
  enters the polling loop: the trace holds no GET, and neither the clock nor a reply to a
  GET is needed for the result.
\<close>

theorem generate_image_missing_task_id:
  assumes "truthy (api_key g)"
    and "encodable (take 1800 p)"
    and "post_replies w = Inr r # rest"
    and "200 \<le> status_code r \<and> status_code r < 300"
    and "json r = Inr body"
    and "task_id body = None"
  shows "ModelScopeGenerator_generate_image g p w =
           Some (Inl (KeyError ''task_id''),
                 submit_events g p @ (if status_code r \<noteq> 200 then [Log ERROR] else []))
       \<and> filter is_HttpGet
           (submit_events g p @ (if status_code r \<noteq> 200 then [Log ERROR] else [])) = []"
proof -
  have "submit_body (Inr r) =
          (Inl (KeyError ''task_id''), if status_code r \<noteq> 200 then [Log ERROR] else [])"
    using assms(4,5,6) by (simp add: submit_body_def raise_for_status_def)
  then have "ModelScopeGenerator_generate_image g p w =
           Some (Inl (KeyError ''task_id''),
                 submit_events g p @ (if status_code r \<noteq> 200 then [Log ERROR] else []))"
    using generate_image_rejected [OF assms(1,2,3)] by (simp add: submit_handler_def)
  then show ?thesis by (simp add: gets_submit_events)
qed

theorem generate_image_missing_task_id_witness:
  "ModelScopeGenerator_generate_image example_generator [104, 105]
     (world_of
        [Inr \<lparr> status_code = 200,
               json = Inr \<lparr> task_id = None, task_status = None, output_images = None,
                             message = Some ''queued'' \<rparr>,
               content = [] \<rparr>]
        [status_reply ''SUCCEED'' (Some [''http://x/y.png'']) None,
         Inr (image_response 200 png)]
        [100, 100]) =
     Some (Inl (KeyError ''task_id''), submit_events example_generator [104, 105])"
  using generate_image_missing_task_id
    [where g = example_generator and rest = "[]" and p = "[104, 105]"
       and r = "\<lparr> status_code = 200,
                json = Inr \<lparr> task_id = None, task_status = None, output_images = None,
                              message = Some ''queued'' \<rparr>,
                content = [] \<rparr>"
       and body = "\<lparr> task_id = None, task_status = None, output_images = None,
                              message = Some ''queued'' \<rparr>"
       and w = "world_of
        [Inr \<lparr> status_code = 200,
               json = Inr \<lparr> task_id = None, task_status = None, output_images = None,
                             message = Some ''queued'' \<rparr>,
               content = [] \<rparr>]
        [status_reply ''SUCCEED'' (Some [''http://x/y.png'']) None,
         Inr (image_response 200 png)]
        [100, 100]"]
  by (simp add: example_defs world_defs encodable_def)

subsection \<open>Polling\<close>

text \<open>
  Claim C3, as the code has it. \<^verbatim>\<open>ModelScopeGenerator.generate_image\<close> reads \<^verbatim>\<open>time.time()\<close>
  once after the submission (\<open>start\<close>) and once at the start of every iteration (\<open>now\<close>),
  before any status request; these are readings of the wall clock, of which nothing is
  assumed. When the float difference \<open>now - start\<close> is strictly greater than the timeout,
  the loop raises \<open>TimeoutError\<close> with no further event, whatever replies would follow.
  For the whole call: after any number of nonterminal poll outcomes (pending statuses
  and transient request errors, each polled with a difference within the timeout, the
  sleeps returning), such a reading ends the call in \<open>TimeoutError\<close>, and the trace holds
  exactly one status request per earlier outcome and none after.
\<close>

theorem generate_image_timeout:
  assumes "truthy (api_key g)"
    and "encodable (take 1800 p)"
    and "post_replies w = reply # rest"
    and "accepts reply tid"
    and "clock w = start # ts @ now # clk"
    and "get_replies w = os @ gets"
    and "list_all non_terminal os"
    and "length ts = length os"
    and "os \<noteq> [] \<longrightarrow> time_sleep w (polling_interval g) = None"
    and "\<forall>t \<in> set ts. \<not> float_sub w t start > timeout g"
    and "float_sub w now start > timeout g"
  shows "poll_loop w g (slashed (base_url g)) tid start (now # clk) gets =
           Some (Inl (TimeoutError (timeout g)), [])
       \<and> ModelScopeGenerator_generate_image g p w =
           Some (Inl (TimeoutError (timeout g)),
                 submit_events g p @ accepted_events reply @
                 concat (map (retry_events g (slashed (base_url g)) tid) os))
       \<and> length (filter is_HttpGet
           (submit_events g p @ accepted_events reply @
            concat (map (retry_events g (slashed (base_url g)) tid) os))) = length os"
proof -
  let ?b = "slashed (base_url g)"
  have stop: "poll_loop w g ?b tid start (now # clk) gets =
          Some (Inl (TimeoutError (timeout g)), [])"
    using assms(11) by (rule poll_loop_timeout)
  have "poll_loop w g ?b tid start (ts @ now # clk) (os @ gets) =
          emit (concat (map (retry_events g ?b tid) os))
            (poll_loop w g ?b tid start (now # clk) gets)"
    using assms(7,8,10,9) by (rule poll_loop_retry_prefix)
  then have "ModelScopeGenerator_generate_image g p w =
          emit (submit_events g p @ accepted_events reply)
            (emit (concat (map (retry_events g ?b tid) os))
               (Some (Inl (TimeoutError (timeout g)), [])))"
    using generate_image_accepted [OF assms(1,2,3,4,5)] assms(6) stop by simp
  then have run: "ModelScopeGenerator_generate_image g p w =
          Some (Inl (TimeoutError (timeout g)),
                submit_events g p @ accepted_events reply @ concat (map (retry_events g ?b tid) os))"
    by (simp add: emit_Some)
  have count: "length (filter is_HttpGet
           (submit_events g p @ accepted_events reply @
            concat (map (retry_events g ?b tid) os))) = length os"
    by (simp add: gets_submit_events gets_accepted_events gets_retry_events)
  from stop run count show ?thesis by blast
qed

theorem generate_image_timeout_witness:
  "ModelScopeGenerator_generate_image example_generator [104, 105]
     (service [connection_error, status_reply ''PENDING'' None None,
               status_reply ''SUCCEED'' (Some [''http://x/y.png'']) None]
        [100, 130, 160, 161]) =
     Some (Inl (TimeoutError 60),
           submit_events example_generator [104, 105] @
           [Log INFO,
            status_request example_generator ''https://api-inference.modelscope.cn/'' ''t1'',
            Log ERROR, Sleep 2,
            status_request example_generator ''https://api-inference.modelscope.cn/'' ''t1'',
            Sleep 2])"
  using generate_image_timeout
    [where g = example_generator and reply = "accepted_reply ''t1''" and rest = "[]"
       and tid = "''t1''" and start = 100 and ts = "[130, 160]" and now = 161 and clk = "[]"
       and os = "[connection_error, status_reply ''PENDING'' None None]"
       and gets = "[status_reply ''SUCCEED'' (Some [''http://x/y.png'']) None]"
       and p = "[104, 105]"
       and w = "service [connection_error, status_reply ''PENDING'' None None,
               status_reply ''SUCCEED'' (Some [''http://x/y.png'']) None]
        [100, 130, 160, 161]"]
  by (simp add: example_defs world_defs encodable_def non_terminal_def retry_events_def
      slashed_def)

text \<open>
  Claim C3 as stated ("elapsed time is measured against a monotonic clock ... if strictly
  more than timeout seconds have elapsed since submission ... raises a timeout-kind
  error and issues no further status requests") fails: the clock is the wall clock. With a
  timeout of 1 second, after a sleep of 2 seconds and with the clock set back meanwhile
  (readings 100000, 100000, 40), the second iteration raises nothing, issues another
  status request and the call returns the image.
\<close>

theorem clock_set_back_no_timeout:
  "timeout hasty_generator = 1
   \<and> ModelScopeGenerator_generate_image hasty_generator [104, 105]
       (service [status_reply ''PENDING'' None None,
                 status_reply ''SUCCEED'' (Some [''http://x/y.png'']) None,
                 Inr (image_response 200 png)] [100000, 100000, 40]) =
      Some (Inr png,
            submit_events hasty_generator [104, 105] @
            [Log INFO,
             status_request hasty_generator ''https://api-inference.modelscope.cn/'' ''t1'',
             Sleep 2,
             status_request hasty_generator ''https://api-inference.modelscope.cn/'' ''t1'',
             Log INFO, HttpGet ''http://x/y.png'' [] 30])"
  by (simp add: ModelScopeGenerator_generate_image_def ModelScopeGenerator_validate_config_def
      example_defs world_defs submit_body_def raise_for_status_def poll_body_def emit_def
      slashed_def status_request_def truncate_prompt_def MAX_PROMPT_LENGTH_def
      encodable_def)

text \<open>
  Claim C4. In \<^verbatim>\<open>ModelScopeGenerator.generate_image\<close> (the payload being sent), for every
  finite sequence \<open>os\<close> of nonterminal poll outcomes (a pending or unrecognised status,
  or a transient request error), each polled within the timeout and each followed by a
  sleep that returns, followed by a \<open>SUCCEED\<close> response whose first output image is \<open>u\<close>
  and a download that passes \<^verbatim>\<open>raise_for_status\<close>: the call returns the bytes of that
  download, the last request is the GET of \<open>u\<close>, and the sleeps of the run are exactly
  one polling interval per nonterminal outcome.
\<close>

theorem generate_image_polls_until_succeed:
  assumes "truthy (api_key g)"
    and "encodable (take 1800 p)"
    and "post_replies w = reply # rest"
    and "accepts reply tid"
    and "clock w = start # ts @ now # clk"
    and "get_replies w = os @ Inr sr # Inr ir # gets"
    and "list_all non_terminal os"
    and "length ts = length os"
    and "os \<noteq> [] \<longrightarrow> time_sleep w (polling_interval g) = None"
    and "\<forall>t \<in> set (ts @ [now]). \<not> float_sub w t start > timeout g"
    and "succeeded sr u"
    and "\<not> (400 \<le> status_code ir \<and> status_code ir < 600)"
  shows "ModelScopeGenerator_generate_image g p w =
           Some (Inr (content ir),
                 submit_events g p @ accepted_events reply @
                 concat (map (retry_events g (slashed (base_url g)) tid) os) @
                 download_events g (slashed (base_url g)) tid u)
       \<and> filter is_Sleep
           (submit_events g p @ accepted_events reply @
            concat (map (retry_events g (slashed (base_url g)) tid) os) @
            download_events g (slashed (base_url g)) tid u) =
           replicate (length os) (Sleep (polling_interval g))"
proof -
  let ?b = "slashed (base_url g)"
  have within: "\<forall>t \<in> set ts. \<not> float_sub w t start > timeout g" and last: "\<not> float_sub w now start > timeout g"
    using assms(10) by auto
  have "poll_body w g ?b tid (Inr sr # Inr ir # gets) =
          Some (Returned (content ir), download_events g ?b tid u, gets)"
    using assms(12) by (simp add: poll_body_succeeded [OF assms(11)] raise_for_status_def)
  then have final: "poll_loop w g ?b tid start (now # clk) (Inr sr # Inr ir # gets) =
          Some (Inr (content ir), download_events g ?b tid u)"
    using last by simp
  have "poll_loop w g ?b tid start (ts @ now # clk) (os @ Inr sr # Inr ir # gets) =
          emit (concat (map (retry_events g ?b tid) os))
            (poll_loop w g ?b tid start (now # clk) (Inr sr # Inr ir # gets))"
    using assms(7,8) within assms(9) by (rule poll_loop_retry_prefix)
  then have run: "ModelScopeGenerator_generate_image g p w =
          Some (Inr (content ir),
                submit_events g p @ accepted_events reply @
                concat (map (retry_events g ?b tid) os) @ download_events g ?b tid u)"
    using generate_image_accepted [OF assms(1,2,3,4,5)] assms(6) final by (simp add: emit_Some)
  have sleeps: "filter is_Sleep
           (submit_events g p @ accepted_events reply @
            concat (map (retry_events g ?b tid) os) @ download_events g ?b tid u) =
           replicate (length os) (Sleep (polling_interval g))"
    by (simp add: sleeps_submit_events sleeps_accepted_events sleeps_retry_events
        download_events_def status_request_def)
  from run sleeps show ?thesis by blast
qed

theorem generate_image_polls_until_succeed_witness:
  "ModelScopeGenerator_generate_image example_generator [104, 105]
     (service [status_reply ''PENDING'' None None, status_reply ''PENDING'' None None,
               status_reply ''SUCCEED'' (Some [''http://x/y.png'']) None,
               Inr (image_response 200 png)] [100, 100, 102, 104]) =
     Some (Inr png,
           submit_events example_generator [104, 105] @
           [Log INFO,
            status_request example_generator ''https://api-inference.modelscope.cn/'' ''t1'',
            Sleep 2,
            status_request example_generator ''https://api-inference.modelscope.cn/'' ''t1'',
            Sleep 2,
            status_request example_generator ''https://api-inference.modelscope.cn/'' ''t1'',
            Log INFO, HttpGet ''http://x/y.png'' [] 30])
   \<and> ModelScopeGenerator_generate_image example_generator [104, 105]
     (service [connection_error, connection_error,
               status_reply ''SUCCEED'' (Some [''http://x/y.png'']) None,
               Inr (image_response 200 png)] [100, 100, 102, 104]) =
     Some (Inr png,
           submit_events example_generator [104, 105] @
           [Log INFO,
            status_request example_generator ''https://api-inference.modelscope.cn/'' ''t1'',
            Log ERROR, Sleep 2,
            status_request example_generator ''https://api-inference.modelscope.cn/'' ''t1'',
            Log ERROR, Sleep 2,
            status_request example_generator ''https://api-inference.modelscope.cn/'' ''t1'',
            Log INFO, HttpGet ''http://x/y.png'' [] 30])"
  using generate_image_polls_until_succeed
    [where g = example_generator and reply = "accepted_reply ''t1''" and rest = "[]"
       and tid = "''t1''" and start = 100 and ts = "[100, 102]" and now = 104 and clk = "[]"
       and os = "[status_reply ''PENDING'' None None, status_reply ''PENDING'' None None]"
       and sr = "projr (status_reply ''SUCCEED'' (Some [''http://x/y.png'']) None)"
       and ir = "image_response 200 png" and gets = "[]" and u = "''http://x/y.png''"
       and p = "[104, 105]"
       and w = "service [status_reply ''PENDING'' None None, status_reply ''PENDING'' None None,
               status_reply ''SUCCEED'' (Some [''http://x/y.png'']) None,
               Inr (image_response 200 png)] [100, 100, 102, 104]"]
    generate_image_polls_until_succeed
    [where g = example_generator and reply = "accepted_reply ''t1''" and rest = "[]"
       and tid = "''t1''" and start = 100 and ts = "[100, 102]" and now = 104 and clk = "[]"
       and os = "[connection_error, connection_error]"
       and sr = "projr (status_reply ''SUCCEED'' (Some [''http://x/y.png'']) None)"
       and ir = "image_response 200 png" and gets = "[]" and u = "''http://x/y.png''"
       and p = "[104, 105]"
       and w = "service [connection_error, connection_error,
               status_reply ''SUCCEED'' (Some [''http://x/y.png'']) None,
               Inr (image_response 200 png)] [100, 100, 102, 104]"]
  by (simp add: example_defs world_defs encodable_def non_terminal_def retry_events_def
      slashed_def succeeded_def download_events_def)

text \<open>
  Claim C6. In \<^verbatim>\<open>ModelScopeGenerator.generate_image\<close> (the payload being sent), when a poll
  response, after any nonterminal outcomes whose sleeps return, reports \<open>FAILED\<close> with
  the message \<open>m\<close>, the call raises \<open>RuntimeError\<close> with the message
  \<open>Image generation failed: m\<close>; the handler of the loop does not catch it: the run ends
  there, with no sleep and no request after that status request.
\<close>

theorem generate_image_task_failed:
  assumes "truthy (api_key g)"
    and "encodable (take 1800 p)"
    and "post_replies w = reply # rest"
    and "accepts reply tid"
    and "clock w = start # ts @ now # clk"
    and "get_replies w = os @ Inr fr # gets"
    and "list_all non_terminal os"
    and "length ts = length os"
    and "os \<noteq> [] \<longrightarrow> time_sleep w (polling_interval g) = None"
    and "\<forall>t \<in> set (ts @ [now]). \<not> float_sub w t start > timeout g"
    and "failed fr m"
  shows "ModelScopeGenerator_generate_image g p w =
           Some (Inl (RuntimeError (''Image generation failed: '' @ m)),
                 submit_events g p @ accepted_events reply @
                 concat (map (retry_events g (slashed (base_url g)) tid) os) @
                 [status_request g (slashed (base_url g)) tid, Log ERROR])"
proof -
  let ?b = "slashed (base_url g)"
  have within: "\<forall>t \<in> set ts. \<not> float_sub w t start > timeout g" and last: "\<not> float_sub w now start > timeout g"
    using assms(10) by auto
  have final: "poll_loop w g ?b tid start (now # clk) (Inr fr # gets) =
          Some (Inl (RuntimeError (''Image generation failed: '' @ m)),
                [status_request g ?b tid, Log ERROR])"
    using last by (simp add: poll_body_failed [OF assms(11)])
  have "poll_loop w g ?b tid start (ts @ now # clk) (os @ Inr fr # gets) =
          emit (concat (map (retry_events g ?b tid) os))
            (poll_loop w g ?b tid start (now # clk) (Inr fr # gets))"
    using assms(7,8) within assms(9) by (rule poll_loop_retry_prefix)
  then show ?thesis
    using generate_image_accepted [OF assms(1,2,3,4,5)] assms(6) final by (simp add: emit_Some)
qed

theorem generate_image_task_failed_witness:
  "ModelScopeGenerator_generate_image example_generator [104, 105]
     (service [connection_error, status_reply ''FAILED'' None (Some ''bad prompt'')]
        [100, 100, 102]) =
     Some (Inl (RuntimeError ''Image generation failed: bad prompt''),
           submit_events example_generator [104, 105] @
           [Log INFO,
            status_request example_generator ''https://api-inference.modelscope.cn/'' ''t1'',
            Log ERROR, Sleep 2,
            status_request example_generator ''https://api-inference.modelscope.cn/'' ''t1'',
            Log ERROR])"
  using generate_image_task_failed
    [where g = example_generator and reply = "accepted_reply ''t1''" and rest = "[]"
       and tid = "''t1''" and start = 100 and ts = "[100]" and now = 102 and clk = "[]"
       and os = "[connection_error]"
       and fr = "projr (status_reply ''FAILED'' None (Some ''bad prompt''))"
       and gets = "[]" and m = "''bad prompt''"
       and p = "[104, 105]"
       and w = "service [connection_error, status_reply ''FAILED'' None (Some ''bad prompt'')]
        [100, 100, 102]"]
  by (simp add: example_defs world_defs encodable_def non_terminal_def retry_events_def
      slashed_def failed_def)

subsection \<open>Download\<close>




end
